theory Spec2Isabelle
  imports Main "HOL-Library.AList"
begin

section \<open>Python values, exceptions and responses\<close>

text \<open>
  The module \<^verbatim>\<open>powerlibs/django/restless/modelviews.py\<close> is glue between a request, an
  object-relational layer, a form (validator) layer and HTTP response wrappers. Request
  payloads are parsed JSON, so a payload is one of the values below; a dictionary keeps
  its items in order, as Python's does.
\<close>

datatype pyval =
    PNone
  | PBool bool
  | PInt int
  | PStr string
  | PList "pyval list"
  | PTuple "pyval list"
  | PDict "(string \<times> pyval) list"

text \<open>Python truth value testing, as used by \<^verbatim>\<open>x or None\<close>.\<close>

fun truthy :: "pyval \<Rightarrow> bool" where
  "truthy PNone = False"
| "truthy (PBool b) = b"
| "truthy (PInt i) = (i \<noteq> 0)"
| "truthy (PStr s) = (s \<noteq> [])"
| "truthy (PList xs) = (xs \<noteq> [])"
| "truthy (PTuple xs) = (xs \<noteq> [])"
| "truthy (PDict kvs) = (kvs \<noteq> [])"

definition py_or :: "pyval \<Rightarrow> pyval \<Rightarrow> pyval" where
  "py_or a b = (if truthy a then a else b)"

type_synonym field_errors = "(string \<times> string list) list"

datatype exn =
    HttpError nat string "field_errors option"
  | NotImplementedError string
  | UnboundLocalError string
  | TypeError string
  | AttributeError string
  | MultipleObjectsReturned
  | OtherError string

text \<open>
  What a handler returns: one of the response wrappers of \<^verbatim>\<open>.http\<close>, or a plain value
  (the serialized list of \<^verbatim>\<open>ListEndpoint.get\<close>, the \<^verbatim>\<open>{}\<close> of \<^verbatim>\<open>delete\<close>).
\<close>

datatype retval = Http200 pyval | Http201 pyval | Raw pyval

text \<open>\<^verbatim>\<open>isinstance(ret, (Http201, Http200))\<close>\<close>

fun is_success :: "retval \<Rightarrow> bool" where
  "is_success (Http200 b) = True"
| "is_success (Http201 b) = True"
| "is_success (Raw v) = False"

text \<open>\<^verbatim>\<open>isinstance(request.data, (list, tuple))\<close> and the iteration over such a value.\<close>

fun is_list_or_tuple :: "pyval \<Rightarrow> bool" where
  "is_list_or_tuple (PList xs) = True"
| "is_list_or_tuple (PTuple xs) = True"
| "is_list_or_tuple v = False"

fun elements :: "pyval \<Rightarrow> pyval list" where
  "elements (PList xs) = xs"
| "elements (PTuple xs) = xs"
| "elements v = []"

text \<open>\<^verbatim>\<open>request.data.items()\<close>: only a dictionary has it.\<close>

fun items :: "pyval \<Rightarrow> exn + (string \<times> pyval) list" where
  "items (PDict kvs) = Inr kvs"
| "items v = Inl (AttributeError ''object has no attribute 'items' '')"

section \<open>The external collaborators\<close>

text \<open>
  A model instance is its attribute dictionary; the database is the list of stored
  instances. The object-relational layer, the form layer and the serializer are not part
  of the module: they are parameters of the model, with exactly the operations the module
  calls. \<^verbatim>\<open>Model.objects.get\<close> returns the one row that matches, or raises \<^verbatim>\<open>DoesNotExist\<close>,
  \<^verbatim>\<open>MultipleObjectsReturned\<close> or another exception (a value the field cannot convert); the
  module handles \<^verbatim>\<open>DoesNotExist\<close> alone.
\<close>

type_synonym model_instance = "(string \<times> pyval) list"
type_synonym db = "model_instance list"
type_synonym files = "(string \<times> string) list"
type_synonym kwargs = "(string \<times> pyval) list"

definition setattr :: "model_instance \<Rightarrow> string \<Rightarrow> pyval \<Rightarrow> model_instance" where
  "setattr obj k v = AList.update k v obj"

definition getattr :: "model_instance \<Rightarrow> string \<Rightarrow> pyval option" where
  "getattr obj k = map_of obj k"

datatype lookup = Found model_instance | DoesNotExist | MultipleObjects | LookupFailed string

record model_cls =
  objects_all :: "db \<Rightarrow> model_instance list"
  objects_get :: "string \<Rightarrow> pyval \<Rightarrow> db \<Rightarrow> lookup"

text \<open>
  A form class: \<^verbatim>\<open>Form(data, files, instance=...)\<close> builds a form whose \<^verbatim>\<open>is_valid()\<close>,
  \<^verbatim>\<open>errors\<close> and \<^verbatim>\<open>save()\<close> depend on the three arguments and on the database.
\<close>

record form_cls =
  is_valid :: "pyval \<Rightarrow> files \<Rightarrow> model_instance option \<Rightarrow> db \<Rightarrow> bool"
  errors :: "pyval \<Rightarrow> files \<Rightarrow> model_instance option \<Rightarrow> db \<Rightarrow> field_errors"
  save :: "pyval \<Rightarrow> files \<Rightarrow> model_instance option \<Rightarrow> db \<Rightarrow> model_instance \<times> db"

datatype serializable = Objs "model_instance list" | Obj model_instance

record env =
  VERSION :: "nat \<times> nat"
  modelform_factory :: "model_cls \<Rightarrow> string option \<Rightarrow> form_cls"
  serialize :: "serializable \<Rightarrow> pyval"
  save_instance :: "model_instance \<Rightarrow> db \<Rightarrow> db"
  delete_instance :: "model_instance \<Rightarrow> db \<Rightarrow> db"
  data_descriptor :: "string \<Rightarrow> (model_instance \<Rightarrow> pyval \<Rightarrow> exn + model_instance) option"

text \<open>
  The state threaded through a handler: the database, and the calls made to the
  object-relational and form layers so far, in order.
\<close>

datatype call =
    ObjectsAll
  | ObjectsGet lookup
  | FormIsValid
  | FormSave
  | InstanceSave
  | InstanceDelete

record world =
  db :: db
  calls :: "call list"

definition log_call :: "call \<Rightarrow> world \<Rightarrow> world" where
  "log_call c w = w\<lparr>calls := calls w @ [c]\<rparr>"

record request =
  POST :: pyval
  data :: pyval
  FILES :: files

type_synonym result = "exn + retval"

section \<open>The endpoints' configuration\<close>

record endpoint =
  model :: "model_cls option"
  form :: "form_cls option"
  methods :: "string list"

record detail_endpoint = endpoint +
  lookup_field :: string

type_synonym 's handler = "'s \<Rightarrow> request \<Rightarrow> kwargs \<Rightarrow> world \<Rightarrow> result \<times> world"

section \<open>\<^verbatim>\<open>_get_form\<close>\<close>

text \<open>\<^verbatim>\<open>VERSION[:2] >= (1, 8)\<close>: tuples compare lexicographically.\<close>

fun tuple_ge :: "nat \<times> nat \<Rightarrow> nat \<times> nat \<Rightarrow> bool" where
  "tuple_ge (a, b) (c, d) = (c < a \<or> (a = c \<and> d \<le> b))"

definition get_form :: "env \<Rightarrow> form_cls option \<Rightarrow> model_cls option \<Rightarrow> exn + form_cls" where
  "get_form e frm mdl =
     (let mf = (if tuple_ge (VERSION e) (1, 8)
                then (\<lambda>m. modelform_factory e m (Some ''__all__''))
                else (\<lambda>m. modelform_factory e m None))
      in case frm of
           Some f \<Rightarrow> Inr f
         | None \<Rightarrow>
             (case mdl of
                Some m \<Rightarrow> Inr (mf m)
              | None \<Rightarrow> Inl (NotImplementedError ''Form or Model class not specified'')))"

section \<open>The decorator \<^verbatim>\<open>method\<close>\<close>

text \<open>
  A Python function object, as far as the decorator reads it: its \<^verbatim>\<open>__name__\<close> and its
  code. \<^verbatim>\<open>str.upper\<close> on ASCII letters.
\<close>

record 's pyfun =
  fn_name :: string
  fn_code :: "'s handler"

definition upper_char :: "char \<Rightarrow> char" where
  "upper_char c =
     (let n = (of_char c :: nat)
      in if 97 \<le> n \<and> n \<le> 122 then char_of (n - 32) else c)"

definition upper :: "string \<Rightarrow> string" where
  "upper s = map upper_char s"

text \<open>
  The decorator \<^verbatim>\<open>method\<close>, here \<open>method_decorator\<close>, defines \<^verbatim>\<open>new_method\<close> and ends:
  it has no \<^verbatim>\<open>return\<close> statement, so its value is Python's \<^verbatim>\<open>None\<close>, here \<open>None\<close> of
  the option type; \<open>Some h\<close> is a callable.
\<close>

definition method_decorator :: "('a endpoint_scheme) pyfun \<Rightarrow> ('a endpoint_scheme) handler option" where
  "method_decorator the_real_method =
     (let new_method = (\<lambda>self request kw w.
            if upper (fn_name the_real_method) \<notin> set (methods self)
            then (Inl (HttpError 405 ''Method Not Allowed'' None), w)
            else fn_code the_real_method self request kw w)
      in None)"

text \<open>Calling the value of an attribute: \<^verbatim>\<open>None\<close> is not callable.\<close>

definition invoke :: "'s handler option \<Rightarrow> 's handler" where
  "invoke attr self request kw w =
     (case attr of
        None \<Rightarrow> (Inl (TypeError '''NoneType' object is not callable''), w)
      | Some h \<Rightarrow> h self request kw w)"

section \<open>\<^verbatim>\<open>ListEndpoint\<close>\<close>

definition get_query_set :: "'a endpoint_scheme \<Rightarrow> request \<Rightarrow> kwargs \<Rightarrow> world \<Rightarrow> (exn + model_instance list) \<times> world" where
  "get_query_set self request kw w =
     (case model self of
        Some m \<Rightarrow> (Inr (objects_all m (db w)), log_call ObjectsAll w)
      | None \<Rightarrow> (Inl (HttpError 404 ''Resource Not Found'' None), w))"

definition ListEndpoint_serialize :: "env \<Rightarrow> serializable \<Rightarrow> pyval" where
  "ListEndpoint_serialize e objs = serialize e objs"

definition ListEndpoint_get :: "env \<Rightarrow> ('a endpoint_scheme) handler" where
  "ListEndpoint_get e self request kw w =
     (case get_query_set self request kw w of
        (Inl err, w1) \<Rightarrow> (Inl err, w1)
      | (Inr qs, w1) \<Rightarrow> (Inr (Raw (ListEndpoint_serialize e (Objs qs))), w1))"

text \<open>
  The \<^verbatim>\<open>for\<close> loop of \<^verbatim>\<open>post\<close> over the entries of a list payload. \<open>self_post\<close> is the
  value the attribute lookup \<^verbatim>\<open>self.post\<close> gives. \<^verbatim>\<open>copy(request)\<close> followed by the two
  assignments is a record update, which leaves \<open>request\<close> itself as it was. An exception
  of the call leaves the loop as an exception; a returned value that is no success
  response is returned.
\<close>

fun post_entries :: "('a endpoint_scheme) handler option \<Rightarrow> 'a endpoint_scheme \<Rightarrow> request \<Rightarrow>
    kwargs \<Rightarrow> pyval list \<Rightarrow> world \<Rightarrow> result \<times> world" where
  "post_entries self_post self request kw [] w = (Inr (Http201 (PDict [])), w)"
| "post_entries self_post self request kw (entry # rest) w =
     (let new_request = request\<lparr>POST := entry, data := entry\<rparr>
      in case invoke self_post self new_request kw w of
           (Inl err, w1) \<Rightarrow> (Inl err, w1)
         | (Inr ret, w1) \<Rightarrow>
             if \<not> is_success ret then (Inr ret, w1)
             else post_entries self_post self request kw rest w1)"

text \<open>
  Lines 111 to 116 of \<^verbatim>\<open>post\<close>. The local name \<^verbatim>\<open>entry\<close> is the loop variable of the
  list branch; \<open>entry\<close> is its binding when the lines run, \<open>None\<close> when it was never
  assigned. Reading an unassigned local raises \<^verbatim>\<open>UnboundLocalError\<close>; the arguments of
  \<^verbatim>\<open>Form(...)\<close> are evaluated before the form is built.
\<close>

definition post_create :: "env \<Rightarrow> pyval option \<Rightarrow> 'a endpoint_scheme \<Rightarrow> request \<Rightarrow> world \<Rightarrow>
    result \<times> world" where
  "post_create e entry self request w =
     (case get_form e (form self) (model self) of
        Inl err \<Rightarrow> (Inl err, w)
      | Inr Form \<Rightarrow>
          (case entry of
             None \<Rightarrow>
               (Inl (UnboundLocalError
                  ''local variable 'entry' referenced before assignment''), w)
           | Some v \<Rightarrow>
               (let d = py_or v PNone;
                    fs = FILES request;
                    w1 = log_call FormIsValid w
                in if \<not> is_valid Form d fs None (db w)
                   then (Inl (HttpError 400 ''Invalid Data'' (Some (errors Form d fs None (db w)))), w1)
                   else (let (obj, db') = save Form d fs None (db w);
                             w2 = log_call FormSave (w1\<lparr>db := db'\<rparr>)
                         in (Inr (Http201 (ListEndpoint_serialize e (Obj obj))), w2)))))"

text \<open>
  \<^verbatim>\<open>post\<close>: the list branch always returns from inside the \<^verbatim>\<open>if\<close>, so the lines after it
  run only when the loop, the one place that assigns \<^verbatim>\<open>entry\<close>, was not entered.
\<close>

definition ListEndpoint_post :: "env \<Rightarrow> ('a endpoint_scheme) handler option \<Rightarrow>
    ('a endpoint_scheme) handler" where
  "ListEndpoint_post e self_post self request kw w =
     (if is_list_or_tuple (data request)
      then post_entries self_post self request kw (elements (data request)) w
      else post_create e None self request w)"

text \<open>
  The class attributes, as the \<^verbatim>\<open>@method\<close> lines bind them. The value of the attribute
  \<^verbatim>\<open>post\<close> does not depend on the function it decorates (lemma \<open>method_None\<close> below), so the
  lookup \<^verbatim>\<open>self.post\<close> inside the decorated function is given the value \<open>None\<close> here.
\<close>

definition ListEndpoint_get_attr :: "env \<Rightarrow> ('a endpoint_scheme) handler option" where
  "ListEndpoint_get_attr e = method_decorator \<lparr>fn_name = ''get'', fn_code = ListEndpoint_get e\<rparr>"

definition ListEndpoint_post_attr :: "env \<Rightarrow> ('a endpoint_scheme) handler option" where
  "ListEndpoint_post_attr e =
     method_decorator \<lparr>fn_name = ''post'', fn_code = ListEndpoint_post e None\<rparr>"

section \<open>\<^verbatim>\<open>DetailEndpoint\<close>\<close>

text \<open>\<^verbatim>\<open>self.lookup_field in kwargs\<close> and \<^verbatim>\<open>kwargs.get(self.lookup_field)\<close>.\<close>

definition kwargs_get :: "kwargs \<Rightarrow> string \<Rightarrow> pyval" where
  "kwargs_get kw k = (case map_of kw k of Some v \<Rightarrow> v | None \<Rightarrow> PNone)"

definition get_instance :: "'a detail_endpoint_scheme \<Rightarrow> request \<Rightarrow> kwargs \<Rightarrow> world \<Rightarrow>
    (exn + model_instance) \<times> world" where
  "get_instance self request kw w =
     (case model self of
        Some m \<Rightarrow>
          if lookup_field self \<in> fst ` set kw
          then (let r = objects_get m (lookup_field self) (kwargs_get kw (lookup_field self)) (db w);
                    w1 = log_call (ObjectsGet r) w
                in case r of
                     Found obj \<Rightarrow> (Inr obj, w1)
                   | DoesNotExist \<Rightarrow> (Inl (HttpError 404 ''Resource Not Found'' None), w1)
                   | MultipleObjects \<Rightarrow> (Inl MultipleObjectsReturned, w1)
                   | LookupFailed msg \<Rightarrow> (Inl (OtherError msg), w1))
          else (Inl (HttpError 404 ''Resource Not Found'' None), w)
      | None \<Rightarrow> (Inl (HttpError 404 ''Resource Not Found'' None), w))"

definition DetailEndpoint_serialize :: "env \<Rightarrow> model_instance \<Rightarrow> pyval" where
  "DetailEndpoint_serialize e obj = serialize e (Obj obj)"

definition DetailEndpoint_get :: "env \<Rightarrow> ('a detail_endpoint_scheme) handler" where
  "DetailEndpoint_get e self request kw w =
     (case get_instance self request kw w of
        (Inl err, w1) \<Rightarrow> (Inl err, w1)
      | (Inr obj, w1) \<Rightarrow> (Inr (Raw (DetailEndpoint_serialize e obj)), w1))"

text \<open>
  \<^verbatim>\<open>setattr(instance, key, value)\<close>: when the instance's class has a data descriptor of
  that name (Python's own \<^verbatim>\<open>__class__\<close> and \<^verbatim>\<open>__dict__\<close>, a model's relation fields), its
  setter runs and may raise; otherwise the value is stored in the instance's attribute
  dictionary. The \<^verbatim>\<open>setattr\<close> loop of \<^verbatim>\<open>patch\<close> over the items of the payload ends at the
  first assignment that raises.
\<close>

definition py_setattr :: "env \<Rightarrow> model_instance \<Rightarrow> string \<Rightarrow> pyval \<Rightarrow> exn + model_instance" where
  "py_setattr e obj key val =
     (case data_descriptor e key of
        Some set_value \<Rightarrow> set_value obj val
      | None \<Rightarrow> Inr (setattr obj key val))"

fun assign_items :: "env \<Rightarrow> (string \<times> pyval) list \<Rightarrow> model_instance \<Rightarrow> exn + model_instance" where
  "assign_items e [] obj = Inr obj"
| "assign_items e ((key, val) # rest) obj =
     (case py_setattr e obj key val of
        Inl err \<Rightarrow> Inl err
      | Inr obj' \<Rightarrow> assign_items e rest obj')"

text \<open>
  \<^verbatim>\<open>instance.save()\<close> and \<^verbatim>\<open>instance.delete()\<close> look the name up on the instance first: an
  entry of the attribute dictionary shadows the method of the class, and calling the
  value found there, which is no function, raises \<^verbatim>\<open>TypeError\<close>.
\<close>

fun type_name :: "pyval \<Rightarrow> string" where
  "type_name PNone = ''NoneType''"
| "type_name (PBool b) = ''bool''"
| "type_name (PInt i) = ''int''"
| "type_name (PStr s) = ''str''"
| "type_name (PList xs) = ''list''"
| "type_name (PTuple xs) = ''tuple''"
| "type_name (PDict kvs) = ''dict''"

definition not_callable :: "pyval \<Rightarrow> exn" where
  "not_callable v = TypeError (CHR 0x27 # type_name v @ ''' object is not callable'')"

definition patch :: "env \<Rightarrow> ('a detail_endpoint_scheme) handler" where
  "patch e self request kw w =
     (case get_instance self request kw w of
        (Inl err, w1) \<Rightarrow> (Inl err, w1)
      | (Inr obj, w1) \<Rightarrow>
          (case items (data request) of
             Inl err \<Rightarrow> (Inl err, w1)
           | Inr kvs \<Rightarrow>
               (case assign_items e kvs obj of
                  Inl err \<Rightarrow> (Inl err, w1)
                | Inr obj' \<Rightarrow>
                    (case getattr obj' ''save'' of
                       Some v \<Rightarrow> (Inl (not_callable v), w1)
                     | None \<Rightarrow>
                         (let w2 = log_call InstanceSave
                                     (w1\<lparr>db := save_instance e obj' (db w1)\<rparr>)
                          in (Inr (Http200 (DetailEndpoint_serialize e obj')), w2))))))"

definition put :: "env \<Rightarrow> ('a detail_endpoint_scheme) handler" where
  "put e self request kw w =
     (case get_form e (form self) (model self) of
        Inl err \<Rightarrow> (Inl err, w)
      | Inr Form \<Rightarrow>
          (case get_instance self request kw w of
             (Inl err, w1) \<Rightarrow> (Inl err, w1)
           | (Inr obj0, w1) \<Rightarrow>
               (let d = py_or (data request) PNone;
                    fs = FILES request;
                    w2 = log_call FormIsValid w1
                in if is_valid Form d fs (Some obj0) (db w1)
                   then (let (obj, db') = save Form d fs (Some obj0) (db w1);
                             w3 = log_call FormSave (w2\<lparr>db := db'\<rparr>)
                         in (Inr (Http200 (DetailEndpoint_serialize e obj)), w3))
                   else (Inl (HttpError 400 ''Invalid data''
                           (Some (errors Form d fs (Some obj0) (db w1)))), w2))))"

definition delete :: "env \<Rightarrow> ('a detail_endpoint_scheme) handler" where
  "delete e self request kw w =
     (case get_instance self request kw w of
        (Inl err, w1) \<Rightarrow> (Inl err, w1)
      | (Inr obj, w1) \<Rightarrow>
          (case getattr obj ''delete'' of
             Some v \<Rightarrow> (Inl (not_callable v), w1)
           | None \<Rightarrow>
               (let w2 = log_call InstanceDelete (w1\<lparr>db := delete_instance e obj (db w1)\<rparr>)
                in (Inr (Raw (PDict [])), w2))))"

definition DetailEndpoint_get_attr :: "env \<Rightarrow> ('a detail_endpoint_scheme) handler option" where
  "DetailEndpoint_get_attr e = method_decorator \<lparr>fn_name = ''get'', fn_code = DetailEndpoint_get e\<rparr>"

definition patch_attr :: "env \<Rightarrow> ('a detail_endpoint_scheme) handler option" where
  "patch_attr e = method_decorator \<lparr>fn_name = ''patch'', fn_code = patch e\<rparr>"

definition put_attr :: "env \<Rightarrow> ('a detail_endpoint_scheme) handler option" where
  "put_attr e = method_decorator \<lparr>fn_name = ''put'', fn_code = put e\<rparr>"

definition delete_attr :: "env \<Rightarrow> ('a detail_endpoint_scheme) handler option" where
  "delete_attr e = method_decorator \<lparr>fn_name = ''delete'', fn_code = delete e\<rparr>"

section \<open>The model form\<close>





section \<open>Notions used to state the properties\<close>

text \<open>The class attributes' defaults, as the two class bodies set them.\<close>

definition ListEndpoint_defaults :: endpoint where
  "ListEndpoint_defaults = \<lparr>model = None, form = None, methods = [''GET'', ''POST'']\<rparr>"

definition DetailEndpoint_defaults :: detail_endpoint where
  "DetailEndpoint_defaults =
     \<lparr>model = None, form = None, methods = [''GET'', ''PUT'', ''PATCH'', ''DELETE''],
      lookup_field = ''pk''\<rparr>"

fun is_HttpError :: "exn \<Rightarrow> bool" where
  "is_HttpError (HttpError code msg errs) = True"
| "is_HttpError x = False"

fun is_404 :: "exn + 'a \<Rightarrow> bool" where
  "is_404 (Inl (HttpError code msg errs)) = (code = 404)"
| "is_404 r = False"

text \<open>A call's outcome is a success when it returned, and returned a success response.\<close>

fun succeeded :: "result \<Rightarrow> bool" where
  "succeeded (Inr ret) = is_success ret"
| "succeeded (Inl err) = False"

text \<open>
  Every entry of a list succeeds, each processed in the world its predecessor left, on a
  copy of the request whose payload is the entry: \<open>Some\<close> of the world after the last
  one, \<open>None\<close> as soon as one does not succeed.
\<close>

fun all_succeed :: "('a endpoint_scheme) handler option \<Rightarrow> 'a endpoint_scheme \<Rightarrow> request \<Rightarrow>
    kwargs \<Rightarrow> pyval list \<Rightarrow> world \<Rightarrow> world option" where
  "all_succeed sp self request kw [] w = Some w"
| "all_succeed sp self request kw (x # xs) w =
     (let r = invoke sp self (request\<lparr>POST := x, data := x\<rparr>) kw w
      in if succeeded (fst r) then all_succeed sp self request kw xs (snd r) else None)"

text \<open>
  The order of calls in a trace: a call that validates a payload or changes stored state
  is guarded when a lookup that found an instance comes before it.
\<close>

fun validates_or_mutates :: "call \<Rightarrow> bool" where
  "validates_or_mutates FormIsValid = True"
| "validates_or_mutates FormSave = True"
| "validates_or_mutates InstanceSave = True"
| "validates_or_mutates InstanceDelete = True"
| "validates_or_mutates c = False"

fun resolves :: "call \<Rightarrow> bool" where
  "resolves (ObjectsGet (Found obj)) = True"
| "resolves c = False"

fun guarded :: "bool \<Rightarrow> call list \<Rightarrow> bool" where
  "guarded resolved [] = True"
| "guarded resolved (c # cs) =
     ((if validates_or_mutates c then resolved else True) \<and> guarded (resolved \<or> resolves c) cs)"

section \<open>A small configuration to run the handlers on\<close>

text \<open>
  A model whose lookup compares one attribute, two validators and a serializer that
  returns the attribute dictionary. \<open>ex_form\<close> requires the key \<^verbatim>\<open>name\<close> and writes only
  that field; \<open>ex_form_optional\<close> has no required field.
\<close>

definition ex_model :: model_cls where
  "ex_model =
     \<lparr>objects_all = (\<lambda>d. d),
      objects_get = (\<lambda>f v d.
         case filter (\<lambda>r. map_of r f = Some v) d of
           [] \<Rightarrow> DoesNotExist
         | [r] \<Rightarrow> Found r
         | r # r' # rs \<Rightarrow> MultipleObjects)\<rparr>"

fun payload_name :: "pyval \<Rightarrow> pyval option" where
  "payload_name (PDict kvs) = map_of kvs ''name''"
| "payload_name v = None"

definition store :: "model_instance option \<Rightarrow> model_instance \<Rightarrow> db \<Rightarrow> db" where
  "store old new d = (case old of None \<Rightarrow> d @ [new] | Some r \<Rightarrow> map (\<lambda>x. if x = r then new else x) d)"

definition write_name :: "pyval \<Rightarrow> model_instance option \<Rightarrow> model_instance" where
  "write_name d old =
     (case payload_name d of
        None \<Rightarrow> (case old of None \<Rightarrow> [] | Some r \<Rightarrow> r)
      | Some v \<Rightarrow> AList.update ''name'' v (case old of None \<Rightarrow> [] | Some r \<Rightarrow> r))"

definition ex_form :: form_cls where
  "ex_form =
     \<lparr>is_valid = (\<lambda>d fs old dbs. payload_name d \<noteq> None),
      errors = (\<lambda>d fs old dbs.
         if payload_name d \<noteq> None then [] else [(''name'', [''This field is required.''])]),
      save = (\<lambda>d fs old dbs. (write_name d old, store old (write_name d old) dbs))\<rparr>"

definition ex_form_optional :: form_cls where
  "ex_form_optional =
     \<lparr>is_valid = (\<lambda>d fs old dbs. True),
      errors = (\<lambda>d fs old dbs. []),
      save = (\<lambda>d fs old dbs. (write_name d old, store old (write_name d old) dbs))\<rparr>"

definition ex_env :: env where
  "ex_env =
     \<lparr>VERSION = (1, 11),
      modelform_factory = (\<lambda>m fields. ex_form),
      serialize = (\<lambda>x. case x of Obj r \<Rightarrow> PDict r | Objs rs \<Rightarrow> PList (map PDict rs)),
      save_instance = (\<lambda>r d. map (\<lambda>x. if map_of x ''pk'' = map_of r ''pk'' then r else x) d),
      delete_instance = (\<lambda>r d. filter (\<lambda>x. x \<noteq> r) d),
      data_descriptor = (\<lambda>k.
         if k = ''__class__''
         then Some (\<lambda>obj v. Inl (TypeError ''__class__ must be set to a class''))
         else None)\<rparr>"

definition ex_row :: model_instance where
  "ex_row = [(''pk'', PInt 1), (''name'', PStr ''a''), (''owner'', PStr ''o'')]"

definition ex_list :: endpoint where
  "ex_list = \<lparr>model = Some ex_model, form = Some ex_form, methods = [''GET'', ''POST'']\<rparr>"

definition ex_detail :: detail_endpoint where
  "ex_detail =
     \<lparr>model = Some ex_model, form = Some ex_form,
      methods = [''GET'', ''PUT'', ''PATCH'', ''DELETE''], lookup_field = ''pk''\<rparr>"

definition ex_request :: "pyval \<Rightarrow> request" where
  "ex_request payload = \<lparr>POST = payload, data = payload, FILES = []\<rparr>"

definition ex_world :: world where
  "ex_world = \<lparr>db = [ex_row], calls = []\<rparr>"

text \<open>
  A second row with the same name, a lookup by name, a serializer that wraps the
  attribute dictionary, and a model form over the one field \<^verbatim>\<open>name\<close>.
\<close>

definition ex_row2 :: model_instance where
  "ex_row2 = [(''pk'', PInt 2), (''name'', PStr ''a''), (''owner'', PStr ''p'')]"

definition ex_world2 :: world where
  "ex_world2 = \<lparr>db = [ex_row, ex_row2], calls = []\<rparr>"

definition ex_detail_by_name :: detail_endpoint where
  "ex_detail_by_name = ex_detail\<lparr>lookup_field := ''name''\<rparr>"




section \<open>The decorator and the class attributes\<close>

lemma method_None: "method_decorator f = None"
  by (simp add: method_decorator_def)

lemma invoke_None:
  "invoke None self request kw w = (Inl (TypeError '''NoneType' object is not callable''), w)"
  by (simp add: invoke_def)

lemma invoke_Some: "invoke (Some h) self request kw w = h self request kw w"
  by (simp add: invoke_def)

text \<open>
  The attribute \<^verbatim>\<open>post\<close> is the decorator's value at a function that looks the attribute
  up again; whatever that lookup gives, the only value the attribute can have is \<open>None\<close>.
\<close>

lemma post_attr_fixpoint:
  "(a = method_decorator \<lparr>fn_name = ''post'', fn_code = ListEndpoint_post e a\<rparr>) = (a = None)"
  by (simp add: method_None)

lemma ListEndpoint_post_attr_None: "ListEndpoint_post_attr e = None"
  by (simp add: ListEndpoint_post_attr_def method_None)

text \<open>
  C1 (the code departs from it). The claim: a handler whose verb is not in \<^verbatim>\<open>methods\<close>
  fails with 405, and one whose verb is allowed returns the wrapped function's result.
  In the code \<^verbatim>\<open>method\<close> never returns \<^verbatim>\<open>new_method\<close>, so each of the six decorated
  attributes is \<^verbatim>\<open>None\<close>: invoking it raises \<^verbatim>\<open>TypeError\<close> whatever \<^verbatim>\<open>methods\<close> holds,
  neither the 405 error nor the wrapped function's result.
\<close>

theorem decorated_handlers_not_callable:
  "invoke (ListEndpoint_get_attr e) self request kw w
     = (Inl (TypeError '''NoneType' object is not callable''), w)
   \<and> invoke (ListEndpoint_post_attr e) self request kw w
     = (Inl (TypeError '''NoneType' object is not callable''), w)
   \<and> invoke (DetailEndpoint_get_attr e) dself request kw w
     = (Inl (TypeError '''NoneType' object is not callable''), w)
   \<and> invoke (put_attr e) dself request kw w
     = (Inl (TypeError '''NoneType' object is not callable''), w)
   \<and> invoke (patch_attr e) dself request kw w
     = (Inl (TypeError '''NoneType' object is not callable''), w)
   \<and> invoke (delete_attr e) dself request kw w
     = (Inl (TypeError '''NoneType' object is not callable''), w)"
  by (simp add: ListEndpoint_get_attr_def ListEndpoint_post_attr_def DetailEndpoint_get_attr_def
      put_attr_def patch_attr_def delete_attr_def method_None invoke_None)

section \<open>Form resolution and the creation path\<close>

lemma get_form_unset:
  "get_form e None None = Inl (NotImplementedError ''Form or Model class not specified'')"
  by (simp add: get_form_def)

lemma get_form_Inl:
  "get_form e frm mdl = Inl err \<Longrightarrow>
   frm = None \<and> mdl = None \<and> err = NotImplementedError ''Form or Model class not specified''"
  by (auto simp: get_form_def Let_def split: option.splits)

text \<open>
  The function \<^verbatim>\<open>post\<close> on a payload that is no list or tuple: form resolution runs, then
  the read of \<^verbatim>\<open>entry\<close> fails. The world is the one the function was called in.
\<close>

lemma post_single:
  "\<not> is_list_or_tuple (data request) \<Longrightarrow>
   ListEndpoint_post e sp self request kw w =
     (Inl (if form self = None \<and> model self = None
           then NotImplementedError ''Form or Model class not specified''
           else UnboundLocalError ''local variable 'entry' referenced before assignment''), w)"
  by (auto simp: ListEndpoint_post_def post_create_def get_form_def Let_def split: option.splits)

text \<open>
  C2 (the code departs from it). The claim: a POST of a single object is validated by the
  resolved form, and gives 400 with the form's errors or saves and gives 201. At a
  configured endpoint and a payload its form accepts, the function \<^verbatim>\<open>post\<close> raises
  \<^verbatim>\<open>UnboundLocalError\<close> at \<^verbatim>\<open>Form(entry or None, request.FILES)\<close> and leaves the world
  as it was: nothing is validated, nothing is saved, no 201 is returned.
\<close>

theorem post_single_object_unbound:
  "is_valid ex_form (data (ex_request (PDict [(''name'', PStr ''b'')])))
       (FILES (ex_request (PDict [(''name'', PStr ''b'')]))) None (db ex_world)
   \<and> ListEndpoint_post ex_env (ListEndpoint_post_attr ex_env) ex_list
       (ex_request (PDict [(''name'', PStr ''b'')])) [] ex_world
     = (Inl (UnboundLocalError ''local variable 'entry' referenced before assignment''),
        ex_world)"
  by (simp add: post_single ex_request_def ex_list_def ex_form_def)

text \<open>
  C8. When neither \<^verbatim>\<open>form\<close> nor \<^verbatim>\<open>model\<close> is set, form resolution raises
  \<^verbatim>\<open>NotImplementedError\<close>, which is no \<^verbatim>\<open>HttpError\<close>; the two functions that resolve a form,
  \<^verbatim>\<open>post\<close> on a single object and \<^verbatim>\<open>put\<close>, end with that very exception and catch
  nothing.
\<close>

theorem unconfigured_form_raises_NotImplementedError:
  assumes "form self = None" and "model self = None"
    and "form dself = None" and "model dself = None"
  shows "\<not> is_HttpError (NotImplementedError ''Form or Model class not specified'')
    \<and> get_form e (form self) (model self)
        = Inl (NotImplementedError ''Form or Model class not specified'')
    \<and> (\<not> is_list_or_tuple (data request) \<longrightarrow>
         ListEndpoint_post e sp self request kw w
           = (Inl (NotImplementedError ''Form or Model class not specified''), w))
    \<and> put e dself request kw w
        = (Inl (NotImplementedError ''Form or Model class not specified''), w)"
  using assms by (simp add: get_form_unset post_single put_def)

theorem unconfigured_form_raises_NotImplementedError_witness:
  "form ListEndpoint_defaults = None \<and> model ListEndpoint_defaults = None
   \<and> form DetailEndpoint_defaults = None \<and> model DetailEndpoint_defaults = None
   \<and> \<not> is_list_or_tuple (data (ex_request (PDict [(''name'', PStr ''b'')])))
   \<and> ListEndpoint_post ex_env None ListEndpoint_defaults
        (ex_request (PDict [(''name'', PStr ''b'')])) [] ex_world
      = (Inl (NotImplementedError ''Form or Model class not specified''), ex_world)
   \<and> put ex_env DetailEndpoint_defaults (ex_request (PDict [(''name'', PStr ''b'')]))
        [(''pk'', PInt 1)] ex_world
      = (Inl (NotImplementedError ''Form or Model class not specified''), ex_world)"
proof -
  have h: "form ListEndpoint_defaults = None" "model ListEndpoint_defaults = None"
    "form DetailEndpoint_defaults = None" "model DetailEndpoint_defaults = None"
    by (simp_all add: ListEndpoint_defaults_def DetailEndpoint_defaults_def)
  have p: "\<not> is_list_or_tuple (data (ex_request (PDict [(''name'', PStr ''b'')])))"
    by (simp add: ex_request_def)
  show ?thesis
    using h p unconfigured_form_raises_NotImplementedError [OF h, where e = ex_env and sp = None
        and request = "ex_request (PDict [(''name'', PStr ''b'')])" and w = ex_world]
    by simp
qed

text \<open>
  C9 as stated fails: with neither \<^verbatim>\<open>form\<close> nor \<^verbatim>\<open>model\<close> set, the function ends at form
  resolution, one line before the read of \<^verbatim>\<open>entry\<close>, and the exception is not the
  unbound-local one.
\<close>

theorem post_single_unconfigured_counterexample:
  "\<not> is_list_or_tuple (data (ex_request (PDict [(''name'', PStr ''b'')])))
   \<and> fst (ListEndpoint_post ex_env (ListEndpoint_post_attr ex_env) ListEndpoint_defaults
        (ex_request (PDict [(''name'', PStr ''b'')])) [] ex_world)
     \<noteq> Inl (UnboundLocalError ''local variable 'entry' referenced before assignment'')"
  by (simp add: post_single ex_request_def ListEndpoint_defaults_def)

text \<open>
  C9, amended. On every payload that is no list or tuple the function \<^verbatim>\<open>post\<close> fails
  before anything is validated or saved: with the configuration error when neither
  \<^verbatim>\<open>form\<close> nor \<^verbatim>\<open>model\<close> is set, and otherwise with the unbound-local error of the read of
  \<^verbatim>\<open>entry\<close>. The world it leaves is the world it was called in, with no call logged, so
  neither \<^verbatim>\<open>is_valid\<close> nor \<^verbatim>\<open>save\<close> is reached.
\<close>

theorem post_single_fails_before_validation:
  assumes "\<not> is_list_or_tuple (data request)"
  shows "fst (ListEndpoint_post e sp self request kw w) =
      Inl (if form self = None \<and> model self = None
           then NotImplementedError ''Form or Model class not specified''
           else UnboundLocalError ''local variable 'entry' referenced before assignment'')
    \<and> snd (ListEndpoint_post e sp self request kw w) = w"
  using assms by (simp add: post_single)

theorem post_single_fails_before_validation_witness:
  "\<not> is_list_or_tuple (data (ex_request (PDict [(''name'', PStr ''b'')])))
   \<and> fst (ListEndpoint_post ex_env None ex_list (ex_request (PDict [(''name'', PStr ''b'')]))
        [] ex_world)
     = Inl (UnboundLocalError ''local variable 'entry' referenced before assignment'')
   \<and> snd (ListEndpoint_post ex_env None ex_list (ex_request (PDict [(''name'', PStr ''b'')]))
        [] ex_world) = ex_world"
proof -
  have p: "\<not> is_list_or_tuple (data (ex_request (PDict [(''name'', PStr ''b'')])))"
    by (simp add: ex_request_def)
  show ?thesis
    using p post_single_fails_before_validation [OF p, where e = ex_env and sp = None
        and self = ex_list and w = ex_world]
    by (simp add: ex_list_def)
qed

section \<open>Full update\<close>

lemma get_instance_form_indep:
  "get_instance (self\<lparr>form := f\<rparr>) request kw w = get_instance self request kw w"
  by (simp add: get_instance_def split: option.splits)

lemma ex_get_instance_1:
  "get_instance ex_detail (ex_request p) [(''pk'', PInt 1)] ex_world
     = (Inr ex_row, ex_world\<lparr>calls := [ObjectsGet (Found ex_row)]\<rparr>)"
  by (simp add: get_instance_def ex_detail_def ex_model_def ex_world_def ex_row_def
      kwargs_get_def log_call_def)

lemma get_instance_request_indep:
"get_instance self request' kw w = get_instance self request kw w"
  by (simp add: get_instance_def)

lemma put_resolved:
  "get_form e (form self) (model self) = Inr F \<Longrightarrow>
   get_instance self request kw w = (Inr obj0, w1) \<Longrightarrow>
   put e self request kw w =
     (if is_valid F (py_or (data request) PNone) (FILES request) (Some obj0) (db w1)
      then (Inr (Http200 (DetailEndpoint_serialize e
                   (fst (save F (py_or (data request) PNone) (FILES request) (Some obj0) (db w1))))),
            w1\<lparr>db := snd (save F (py_or (data request) PNone) (FILES request) (Some obj0) (db w1)),
               calls := calls w1 @ [FormIsValid, FormSave]\<rparr>)
      else (Inl (HttpError 400 ''Invalid data''
                   (Some (errors F (py_or (data request) PNone) (FILES request) (Some obj0) (db w1)))),
            w1\<lparr>calls := calls w1 @ [FormIsValid]\<rparr>))"
  by (simp add: put_def Let_def log_call_def split_beta)

lemma ex_get_form: "get_form ex_env (form ex_detail) (model ex_detail) = Inr ex_form"
  by (simp add: get_form_def ex_detail_def)

lemma put_falsy:
  "\<not> truthy (data request) \<Longrightarrow>
   put e self request kw w = put e self (request\<lparr>data := PNone\<rparr>) kw w"
  by (simp add: put_def py_or_def
      get_instance_request_indep [of self "request\<lparr>data := PNone\<rparr>" kw w request]
      split: sum.splits prod.splits)

text \<open>
  C10, amended. On a falsy payload the function \<^verbatim>\<open>put\<close> builds the form with \<^verbatim>\<open>None\<close> in
  place of the payload, so it does exactly what it does on an absent payload; whether the
  update is accepted is the form's decision on \<^verbatim>\<open>None\<close>, the files and the instance.
\<close>

theorem put_falsy_payload_as_absent:
  assumes "\<not> truthy (data request)"
  shows "py_or (data request) PNone = PNone
    \<and> put e self request kw w = put e self (request\<lparr>data := PNone\<rparr>) kw w
    \<and> (\<forall>F obj0 w1. get_form e (form self) (model self) = Inr F
          \<and> get_instance self request kw w = (Inr obj0, w1) \<longrightarrow>
          put e self request kw w =
            (if is_valid F PNone (FILES request) (Some obj0) (db w1)
             then (Inr (Http200 (DetailEndpoint_serialize e
                          (fst (save F PNone (FILES request) (Some obj0) (db w1))))),
                   w1\<lparr>db := snd (save F PNone (FILES request) (Some obj0) (db w1)),
                      calls := calls w1 @ [FormIsValid, FormSave]\<rparr>)
             else (Inl (HttpError 400 ''Invalid data''
                          (Some (errors F PNone (FILES request) (Some obj0) (db w1)))),
                   w1\<lparr>calls := calls w1 @ [FormIsValid]\<rparr>)))"
proof (intro conjI allI impI)
  show p: "py_or (data request) PNone = PNone"
    using assms by (simp add: py_or_def)
  show "put e self request kw w = put e self (request\<lparr>data := PNone\<rparr>) kw w"
    using assms by (rule put_falsy)
  fix F obj0 w1
  assume "get_form e (form self) (model self) = Inr F
          \<and> get_instance self request kw w = (Inr obj0, w1)"
  then show "put e self request kw w =
            (if is_valid F PNone (FILES request) (Some obj0) (db w1)
             then (Inr (Http200 (DetailEndpoint_serialize e
                          (fst (save F PNone (FILES request) (Some obj0) (db w1))))),
                   w1\<lparr>db := snd (save F PNone (FILES request) (Some obj0) (db w1)),
                      calls := calls w1 @ [FormIsValid, FormSave]\<rparr>)
             else (Inl (HttpError 400 ''Invalid data''
                          (Some (errors F PNone (FILES request) (Some obj0) (db w1)))),
                   w1\<lparr>calls := calls w1 @ [FormIsValid]\<rparr>))"
    using put_resolved [of e self F request kw w obj0 w1] p by simp
qed

theorem put_falsy_payload_as_absent_witness:
  "\<not> truthy (data (ex_request (PDict [])))
   \<and> put ex_env ex_detail (ex_request (PDict [])) [(''pk'', PInt 1)] ex_world
     = put ex_env ex_detail ((ex_request (PDict []))\<lparr>data := PNone\<rparr>) [(''pk'', PInt 1)] ex_world
   \<and> put ex_env ex_detail (ex_request (PDict [])) [(''pk'', PInt 1)] ex_world
     = (Inl (HttpError 400 ''Invalid data'' (Some [(''name'', [''This field is required.''])])),
        \<lparr>db = [ex_row], calls = [ObjectsGet (Found ex_row), FormIsValid]\<rparr>)"
proof -
  let ?req = "ex_request (PDict [])"
  have n: "\<not> truthy (data ?req)"
    by (simp add: ex_request_def)
  have g: "get_instance ex_detail ?req [(''pk'', PInt 1)] ex_world
     = (Inr ex_row, ex_world\<lparr>calls := [ObjectsGet (Found ex_row)]\<rparr>)"
    by (rule ex_get_instance_1)
  note p = put_falsy_payload_as_absent [OF n, where e = ex_env and self = ex_detail
      and kw = "[(''pk'', PInt 1)]" and w = ex_world]
  from p have e: "put ex_env ex_detail ?req [(''pk'', PInt 1)] ex_world
     = put ex_env ex_detail (?req\<lparr>data := PNone\<rparr>) [(''pk'', PInt 1)] ex_world"
    by blast
  from p ex_get_form g have "put ex_env ex_detail ?req [(''pk'', PInt 1)] ex_world =
            (if is_valid ex_form PNone (FILES ?req) (Some ex_row)
                  (db (ex_world\<lparr>calls := [ObjectsGet (Found ex_row)]\<rparr>))
             then (Inr (Http200 (DetailEndpoint_serialize ex_env
                          (fst (save ex_form PNone (FILES ?req) (Some ex_row)
                             (db (ex_world\<lparr>calls := [ObjectsGet (Found ex_row)]\<rparr>)))))),
                   ex_world\<lparr>calls := [ObjectsGet (Found ex_row)]\<rparr>
                     \<lparr>db := snd (save ex_form PNone (FILES ?req) (Some ex_row)
                             (db (ex_world\<lparr>calls := [ObjectsGet (Found ex_row)]\<rparr>))),
                      calls := calls (ex_world\<lparr>calls := [ObjectsGet (Found ex_row)]\<rparr>)
                        @ [FormIsValid, FormSave]\<rparr>)
             else (Inl (HttpError 400 ''Invalid data''
                          (Some (errors ex_form PNone (FILES ?req) (Some ex_row)
                             (db (ex_world\<lparr>calls := [ObjectsGet (Found ex_row)]\<rparr>))))),
                   ex_world\<lparr>calls := [ObjectsGet (Found ex_row)]\<rparr>
                     \<lparr>calls := calls (ex_world\<lparr>calls := [ObjectsGet (Found ex_row)]\<rparr>)
                        @ [FormIsValid]\<rparr>))"
    by blast
  then have "put ex_env ex_detail ?req [(''pk'', PInt 1)] ex_world
     = (Inl (HttpError 400 ''Invalid data'' (Some [(''name'', [''This field is required.''])])),
        \<lparr>db = [ex_row], calls = [ObjectsGet (Found ex_row), FormIsValid]\<rparr>)"
    by (simp add: ex_form_def ex_world_def)
  with n e show ?thesis
    by simp
qed

text \<open>
  C10 as stated fails: with a form that has no required field, the payload \<^verbatim>\<open>{}\<close> is
  accepted and \<^verbatim>\<open>put\<close> returns the 200 response.
\<close>

theorem put_empty_object_accepted_counterexample:
  "\<not> truthy (data (ex_request (PDict [])))
   \<and> fst (put ex_env (ex_detail\<lparr>form := Some ex_form_optional\<rparr>) (ex_request (PDict []))
         [(''pk'', PInt 1)] ex_world)
     = Inr (Http200 (PDict ex_row))"
proof -
  have f: "get_form ex_env (form (ex_detail\<lparr>form := Some ex_form_optional\<rparr>))
      (model (ex_detail\<lparr>form := Some ex_form_optional\<rparr>)) = Inr ex_form_optional"
    by (simp add: get_form_def)
  have g: "get_instance (ex_detail\<lparr>form := Some ex_form_optional\<rparr>) (ex_request (PDict []))
      [(''pk'', PInt 1)] ex_world = (Inr ex_row, ex_world\<lparr>calls := [ObjectsGet (Found ex_row)]\<rparr>)"
    by (simp add: get_instance_form_indep ex_get_instance_1)
  have n: "\<not> truthy (data (ex_request (PDict [])))"
    by (simp add: ex_request_def)
  have v: "is_valid ex_form_optional (py_or (data (ex_request (PDict []))) PNone)
       (FILES (ex_request (PDict []))) (Some ex_row)
       (db (ex_world\<lparr>calls := [ObjectsGet (Found ex_row)]\<rparr>))"
    by (simp add: ex_form_optional_def)
  have "fst (put ex_env (ex_detail\<lparr>form := Some ex_form_optional\<rparr>) (ex_request (PDict []))
         [(''pk'', PInt 1)] ex_world)
     = Inr (Http200 (DetailEndpoint_serialize ex_env
         (fst (save ex_form_optional (py_or (data (ex_request (PDict []))) PNone)
            (FILES (ex_request (PDict []))) (Some ex_row)
            (db (ex_world\<lparr>calls := [ObjectsGet (Found ex_row)]\<rparr>))))))"
    unfolding put_resolved [OF f g] using v by simp
  then show ?thesis
    using n by (simp add: ex_request_def py_or_def ex_form_optional_def write_name_def
        DetailEndpoint_serialize_def ex_env_def)
qed

section \<open>Instance resolution\<close>

lemma kwargs_get_Some: "map_of kw k = Some v \<Longrightarrow> kwargs_get kw k = v"
  by (simp add: kwargs_get_def)

lemma in_keys_iff: "(k \<in> fst ` set kw) = (map_of kw k \<noteq> None)"
  by (simp add: map_of_eq_None_iff)

lemma get_instance_unset: "model self = None \<Longrightarrow>
  get_instance self request kw w = (Inl (HttpError 404 ''Resource Not Found'' None), w)"
  by (simp add: get_instance_def)

lemma get_instance_absent: "lookup_field self \<notin> fst ` set kw \<Longrightarrow>
  get_instance self request kw w = (Inl (HttpError 404 ''Resource Not Found'' None), w)"
  by (simp add: get_instance_def split: option.splits)

lemma get_instance_lookup:
  "model self = Some m \<Longrightarrow> lookup_field self \<in> fst ` set kw \<Longrightarrow>
   get_instance self request kw w =
     (case objects_get m (lookup_field self) (kwargs_get kw (lookup_field self)) (db w) of
        Found obj \<Rightarrow> Inr obj
      | DoesNotExist \<Rightarrow> Inl (HttpError 404 ''Resource Not Found'' None)
      | MultipleObjects \<Rightarrow> Inl MultipleObjectsReturned
      | LookupFailed msg \<Rightarrow> Inl (OtherError msg),
      log_call (ObjectsGet (objects_get m (lookup_field self) (kwargs_get kw (lookup_field self)) (db w))) w)"
  by (simp add: get_instance_def Let_def split: lookup.splits)

lemma get_instance_db: "db (snd (get_instance self request kw w)) = db w"
  by (simp add: get_instance_def Let_def log_call_def split: option.splits lookup.splits)

text \<open>
  C4, amended. \<^verbatim>\<open>get_instance\<close> fails with the 404 error exactly when \<^verbatim>\<open>model\<close> is unset, or
  the lookup field is no key of the path parameters, or the lookup by that field and the
  path parameter's value raises \<^verbatim>\<open>DoesNotExist\<close>. It returns an instance exactly when the
  lookup returns that instance. When several rows match, the \<^verbatim>\<open>MultipleObjectsReturned\<close> of
  the lookup leaves the function unchanged, and so does any other exception of the lookup:
  neither the 404 error nor an instance. The database is the same afterwards in every
  case. The lookup field of the class is \<^verbatim>\<open>pk\<close> unless a subclass sets it.
\<close>

theorem get_instance_outcomes:
  "(is_404 (fst (get_instance self request kw w)) =
     (model self = None \<or> lookup_field self \<notin> fst ` set kw \<or>
      (\<exists>m. model self = Some m \<and>
         objects_get m (lookup_field self) (kwargs_get kw (lookup_field self)) (db w)
           = DoesNotExist)))
   \<and> (\<forall>obj. (fst (get_instance self request kw w) = Inr obj) =
        (\<exists>m. model self = Some m \<and> lookup_field self \<in> fst ` set kw \<and>
           objects_get m (lookup_field self) (kwargs_get kw (lookup_field self)) (db w)
             = Found obj))
   \<and> ((fst (get_instance self request kw w) = Inl MultipleObjectsReturned) =
        (\<exists>m. model self = Some m \<and> lookup_field self \<in> fst ` set kw \<and>
           objects_get m (lookup_field self) (kwargs_get kw (lookup_field self)) (db w)
             = MultipleObjects))
   \<and> (\<forall>msg. (fst (get_instance self request kw w) = Inl (OtherError msg)) =
        (\<exists>m. model self = Some m \<and> lookup_field self \<in> fst ` set kw \<and>
           objects_get m (lookup_field self) (kwargs_get kw (lookup_field self)) (db w)
             = LookupFailed msg))
   \<and> db (snd (get_instance self request kw w)) = db w
   \<and> (\<forall>v. map_of kw (lookup_field self) = Some v \<longrightarrow>
         kwargs_get kw (lookup_field self) = v)
   \<and> lookup_field DetailEndpoint_defaults = ''pk''"
proof -
  let ?G = "get_instance self request kw w"
  let ?L = "\<lambda>m. objects_get m (lookup_field self) (kwargs_get kw (lookup_field self)) (db w)"
  have cases: "(is_404 (fst ?G) =
     (model self = None \<or> lookup_field self \<notin> fst ` set kw \<or>
      (\<exists>m. model self = Some m \<and> ?L m = DoesNotExist)))
   \<and> (\<forall>obj. (fst ?G = Inr obj) =
        (\<exists>m. model self = Some m \<and> lookup_field self \<in> fst ` set kw \<and> ?L m = Found obj))
   \<and> ((fst ?G = Inl MultipleObjectsReturned) =
        (\<exists>m. model self = Some m \<and> lookup_field self \<in> fst ` set kw \<and> ?L m = MultipleObjects))
   \<and> (\<forall>msg. (fst ?G = Inl (OtherError msg)) =
        (\<exists>m. model self = Some m \<and> lookup_field self \<in> fst ` set kw \<and> ?L m = LookupFailed msg))"
  proof (cases "model self")
    case None
    then show ?thesis by (simp add: get_instance_unset)
  next
    case (Some m)
    show ?thesis
    proof (cases "lookup_field self \<in> fst ` set kw")
      case False
      then show ?thesis by (simp add: get_instance_absent)
    next
      case True
      show ?thesis
        by (cases "?L m") (simp_all add: get_instance_lookup [OF Some True] Some True)
    qed
  qed
  have d: "db (snd ?G) = db w"
    by (rule get_instance_db)
  have k: "\<forall>v. map_of kw (lookup_field self) = Some v \<longrightarrow> kwargs_get kw (lookup_field self) = v"
    by (simp add: kwargs_get_Some)
  have p: "lookup_field DetailEndpoint_defaults = ''pk''"
    by (simp add: DetailEndpoint_defaults_def)
  from cases d k p show ?thesis by blast
qed

lemma ex_get_1: "objects_get ex_model ''pk'' (PInt 1) (db ex_world) = Found ex_row"
  by (simp add: ex_model_def ex_world_def ex_row_def)

lemma ex_get_2: "objects_get ex_model ''pk'' (PInt 2) (db ex_world) = DoesNotExist"
  by (simp add: ex_model_def ex_world_def ex_row_def)

lemma ex_get_name: "objects_get ex_model ''name'' (PStr ''a'') (db ex_world2) = MultipleObjects"
  by (simp add: ex_model_def ex_world2_def ex_row_def ex_row2_def)

lemma ex_get_instance_by_name:
  "get_instance ex_detail_by_name (ex_request p) [(''name'', PStr ''a'')] ex_world2
     = (Inl MultipleObjectsReturned, ex_world2\<lparr>calls := [ObjectsGet MultipleObjects]\<rparr>)"
  by (simp add: get_instance_def ex_detail_by_name_def ex_detail_def ex_model_def ex_world2_def
      ex_row_def ex_row2_def kwargs_get_def log_call_def)

text \<open>
  C4 as stated fails when two rows carry the value looked up: the model is set, the
  lookup field is a path parameter and rows match, so none of the three conditions of
  the 404 holds, yet no instance is returned; \<^verbatim>\<open>MultipleObjectsReturned\<close> is raised.
\<close>

theorem get_instance_several_rows_counterexample:
  "model ex_detail_by_name = Some ex_model
   \<and> lookup_field ex_detail_by_name \<in> fst ` set [(''name'', PStr ''a'')]
   \<and> objects_get ex_model (lookup_field ex_detail_by_name)
        (kwargs_get [(''name'', PStr ''a'')] (lookup_field ex_detail_by_name)) (db ex_world2)
      \<noteq> DoesNotExist
   \<and> fst (get_instance ex_detail_by_name (ex_request PNone) [(''name'', PStr ''a'')] ex_world2)
      = Inl MultipleObjectsReturned
   \<and> \<not> is_404 (fst (get_instance ex_detail_by_name (ex_request PNone)
        [(''name'', PStr ''a'')] ex_world2))"
proof -
  have h: "model ex_detail_by_name = Some ex_model" "lookup_field ex_detail_by_name = ''name''"
    by (simp_all add: ex_detail_by_name_def ex_detail_def)
  have k: "kwargs_get [(''name'', PStr ''a'')] ''name'' = PStr ''a''"
    by (simp add: kwargs_get_def)
  show ?thesis
    by (simp add: h k ex_get_name ex_get_instance_by_name)
qed

theorem get_instance_outcomes_witness:
  "model ex_detail = Some ex_model
   \<and> map_of [(''pk'', PInt 1)] (lookup_field ex_detail) = Some (PInt 1)
   \<and> objects_get ex_model (lookup_field ex_detail) (PInt 1) (db ex_world) = Found ex_row
   \<and> fst (get_instance ex_detail (ex_request PNone) [(''pk'', PInt 1)] ex_world) = Inr ex_row
   \<and> objects_get ex_model (lookup_field ex_detail)
        (kwargs_get [(''pk'', PInt 2)] (lookup_field ex_detail)) (db ex_world) = DoesNotExist
   \<and> is_404 (fst (get_instance ex_detail (ex_request PNone) [(''pk'', PInt 2)] ex_world))
   \<and> db (snd (get_instance ex_detail (ex_request PNone) [(''pk'', PInt 2)] ex_world))
      = db ex_world"
proof -
  have h: "model ex_detail = Some ex_model" "lookup_field ex_detail = ''pk''"
    by (simp_all add: ex_detail_def)
  have k: "kwargs_get [(''pk'', PInt 2)] ''pk'' = PInt 2" "kwargs_get [(''pk'', PInt 1)] ''pk'' = PInt 1"
    by (simp_all add: kwargs_get_def)
  note t1 = get_instance_outcomes [of ex_detail "ex_request PNone" "[(''pk'', PInt 1)]" ex_world]
  note t2 = get_instance_outcomes [of ex_detail "ex_request PNone" "[(''pk'', PInt 2)]" ex_world]
  have a: "fst (get_instance ex_detail (ex_request PNone) [(''pk'', PInt 1)] ex_world) = Inr ex_row"
    using t1 h k ex_get_1 by simp
  have b: "is_404 (fst (get_instance ex_detail (ex_request PNone) [(''pk'', PInt 2)] ex_world))"
    using t2 h k ex_get_2 by simp
  have c: "db (snd (get_instance ex_detail (ex_request PNone) [(''pk'', PInt 2)] ex_world))
      = db ex_world"
    using t2 by blast
  show ?thesis
    using a b c h k ex_get_1 ex_get_2 by simp
qed

section \<open>Partial update\<close>








section \<open>Batch creation\<close>

text \<open>
  The loop itself, for any callable bound to \<^verbatim>\<open>self.post\<close>: when every entry succeeds it
  ends with \<^verbatim>\<open>Http201({})\<close>, and at the first entry that does not it ends with that
  entry's outcome and the world that call left.
\<close>

lemma post_entries_all_succeed:
  "all_succeed sp self request kw xs w = Some w' \<Longrightarrow>
   post_entries sp self request kw xs w = (Inr (Http201 (PDict [])), w')"
proof (induction xs arbitrary: w)
  case Nil
  then show ?case by simp
next
  case (Cons x xs)
  obtain r w1 where c: "invoke sp self (request\<lparr>POST := x, data := x\<rparr>) kw w = (r, w1)"
    by (cases "invoke sp self (request\<lparr>POST := x, data := x\<rparr>) kw w")
  from Cons.prems c have s: "succeeded r" and rest: "all_succeed sp self request kw xs w1 = Some w'"
    by (auto simp: Let_def split: if_splits)
  from s obtain ret where r: "r = Inr ret" and ok: "is_success ret"
    by (cases r) auto
  from Cons.IH [OF rest] c r ok show ?case
    by (simp add: Let_def)
qed

lemma post_entries_abort:
  "all_succeed sp self request kw pre w = Some w1 \<Longrightarrow>
   invoke sp self (request\<lparr>POST := x, data := x\<rparr>) kw w1 = (r, w2) \<Longrightarrow>
   \<not> succeeded r \<Longrightarrow>
   post_entries sp self request kw (pre @ x # rest) w = (r, w2)"
proof (induction pre arbitrary: w)
  case Nil
  then show ?case
    by (cases r) (auto simp: Let_def)
next
  case (Cons y pre)
  obtain ry wy where c: "invoke sp self (request\<lparr>POST := y, data := y\<rparr>) kw w = (ry, wy)"
    by (cases "invoke sp self (request\<lparr>POST := y, data := y\<rparr>) kw w")
  from Cons.prems(1) c have s: "succeeded ry"
    and p: "all_succeed sp self request kw pre wy = Some w1"
    by (auto simp: Let_def split: if_splits)
  from s obtain ret where ry: "ry = Inr ret" and ok: "is_success ret"
    by (cases ry) auto
  from Cons.IH [OF p Cons.prems(2) Cons.prems(3)] c ry ok show ?case
    by (simp add: Let_def)
qed

text \<open>
  What \<^verbatim>\<open>self.post\<close> is in the class: \<^verbatim>\<open>None\<close>, so the call for the first entry raises
  \<^verbatim>\<open>TypeError\<close>. Were it the decorated function itself, the call for the first entry
  would run the single-object lines and fail at the read of \<^verbatim>\<open>entry\<close>.
\<close>

lemma post_list_as_written:
  "data request = PList (x # xs) \<or> data request = PTuple (x # xs) \<Longrightarrow>
   ListEndpoint_post e (ListEndpoint_post_attr e) self request kw w
     = (Inl (TypeError '''NoneType' object is not callable''), w)"
  by (auto simp: ListEndpoint_post_def ListEndpoint_post_attr_None invoke_None)

lemma post_list_through_function:
  "data request = PList (x # xs) \<or> data request = PTuple (x # xs) \<Longrightarrow>
   \<not> is_list_or_tuple x \<Longrightarrow> form self \<noteq> None \<or> model self \<noteq> None \<Longrightarrow>
   ListEndpoint_post e (Some (ListEndpoint_post e sp)) self request kw w
     = (Inl (UnboundLocalError ''local variable 'entry' referenced before assignment''), w)"
  by (auto simp: ListEndpoint_post_def [of e "Some (ListEndpoint_post e sp)"] invoke_Some post_single)

text \<open>
  C3 (the code departs from it). The claim: the entries of a list or tuple payload are
  processed in order by the single-object creation path, the first failure is returned
  with the rows of earlier entries left stored, and \<^verbatim>\<open>Http201({})\<close> is returned when all
  succeed. On the payload \<^verbatim>\<open>[{"name": "b"}, {"title": "t"}]\<close>, whose first entry the form
  accepts, and on the same entries as a tuple, the function \<^verbatim>\<open>post\<close> raises \<^verbatim>\<open>TypeError\<close> at
  the call \<^verbatim>\<open>self.post(...)\<close> for the first entry, because the attribute is \<^verbatim>\<open>None\<close>: the
  creation path is never entered, no row is stored, and the failure is not the second
  entry's. With \<^verbatim>\<open>self.post\<close> bound to the function itself the first entry fails as well,
  with the \<^verbatim>\<open>UnboundLocalError\<close> of the single-object lines.
\<close>

theorem post_list_first_entry_fails:
  "is_valid ex_form (PDict [(''name'', PStr ''b'')]) [] None (db ex_world)
   \<and> ListEndpoint_post ex_env (ListEndpoint_post_attr ex_env) ex_list
       (ex_request (PList [PDict [(''name'', PStr ''b'')], PDict [(''title'', PStr ''t'')]]))
       [] ex_world
     = (Inl (TypeError '''NoneType' object is not callable''), ex_world)
   \<and> ListEndpoint_post ex_env (ListEndpoint_post_attr ex_env) ex_list
       (ex_request (PTuple [PDict [(''name'', PStr ''b'')], PDict [(''title'', PStr ''t'')]]))
       [] ex_world
     = (Inl (TypeError '''NoneType' object is not callable''), ex_world)
   \<and> ListEndpoint_post ex_env (Some (ListEndpoint_post ex_env None)) ex_list
       (ex_request (PList [PDict [(''name'', PStr ''b'')], PDict [(''title'', PStr ''t'')]]))
       [] ex_world
     = (Inl (UnboundLocalError ''local variable 'entry' referenced before assignment''),
        ex_world)
   \<and> ListEndpoint_post ex_env (Some (ListEndpoint_post ex_env None)) ex_list
       (ex_request (PTuple [PDict [(''name'', PStr ''b'')], PDict [(''title'', PStr ''t'')]]))
       [] ex_world
     = (Inl (UnboundLocalError ''local variable 'entry' referenced before assignment''),
        ex_world)"
proof -
  have v: "is_valid ex_form (PDict [(''name'', PStr ''b'')]) [] None (db ex_world)"
    by (simp add: ex_form_def)
  have f: "form ex_list \<noteq> None \<or> model ex_list \<noteq> None"
    by (simp add: ex_list_def)
  have n: "\<not> is_list_or_tuple (PDict [(''name'', PStr ''b'')])"
    by simp
  have l: "data (ex_request (PList xs)) = PList xs" "data (ex_request (PTuple xs)) = PTuple xs" for xs
    by (simp_all add: ex_request_def)
  show ?thesis
    using v by (simp add: post_list_as_written post_list_through_function [OF _ n f] l)
qed

section \<open>Full update through a model form\<close>











section \<open>Resolution, validation and mutation\<close>

lemma get_instance_Inr:
  "get_instance self request kw w = (Inr obj, w1) \<Longrightarrow> w1 = log_call (ObjectsGet (Found obj)) w"
  by (auto simp: get_instance_def Let_def split: option.splits if_splits lookup.splits)

lemma get_instance_Inl:
  "get_instance self request kw w = (Inl err, w1) \<Longrightarrow>
   db w1 = db w
   \<and> (calls w1 = calls w \<or> (\<exists>r. calls w1 = calls w @ [ObjectsGet r] \<and> \<not> resolves (ObjectsGet r)))"
  by (auto simp: get_instance_def Let_def log_call_def split: option.splits if_splits lookup.splits)

lemma get_instance_fresh:
  "get_instance self request kw \<lparr>db = d, calls = []\<rparr> = (Inl err, w1) \<Longrightarrow> guarded False (calls w1)"
  using get_instance_Inl [of self request kw "\<lparr>db = d, calls = []\<rparr>" err w1]
  by auto

lemma patch_guarded: "guarded False (calls (snd (patch e self request kw \<lparr>db = d, calls = []\<rparr>)))"
proof (cases "get_instance self request kw \<lparr>db = d, calls = []\<rparr>")
  case (Pair res w1)
  show ?thesis
  proof (cases res)
    case (Inl err)
    with Pair get_instance_fresh [of self request kw d err w1] show ?thesis
      by (simp add: patch_def)
  next
    case (Inr obj)
    with Pair get_instance_Inr [of self request kw "\<lparr>db = d, calls = []\<rparr>" obj w1] show ?thesis
      by (simp add: patch_def log_call_def Let_def split: sum.splits option.splits)
  qed
qed

lemma delete_guarded: "guarded False (calls (snd (delete e self request kw \<lparr>db = d, calls = []\<rparr>)))"
proof (cases "get_instance self request kw \<lparr>db = d, calls = []\<rparr>")
  case (Pair res w1)
  show ?thesis
  proof (cases res)
    case (Inl err)
    with Pair get_instance_fresh [of self request kw d err w1] show ?thesis
      by (simp add: delete_def)
  next
    case (Inr obj)
    with Pair get_instance_Inr [of self request kw "\<lparr>db = d, calls = []\<rparr>" obj w1] show ?thesis
      by (simp add: delete_def log_call_def Let_def split: option.splits)
  qed
qed

lemma put_guarded: "guarded False (calls (snd (put e self request kw \<lparr>db = d, calls = []\<rparr>)))"
proof (cases "get_form e (form self) (model self)")
  case (Inl err)
  then show ?thesis by (simp add: put_def)
next
  case (Inr F)
  show ?thesis
  proof (cases "get_instance self request kw \<lparr>db = d, calls = []\<rparr>")
    case (Pair res w1)
    show ?thesis
    proof (cases res)
      case (Inl err)
      with Pair Inr get_instance_fresh [of self request kw d err w1] show ?thesis
        by (simp add: put_def)
    next
      case (Inr obj)
      with Pair \<open>get_form e (form self) (model self) = Inr F\<close>
        get_instance_Inr [of self request kw "\<lparr>db = d, calls = []\<rparr>" obj w1] show ?thesis
        by (simp add: put_def log_call_def Let_def split_beta)
    qed
  qed
qed

lemma unresolved_fails:
  assumes "get_instance self request kw w = (Inl err, w1)"
  shows "patch e self request kw w = (Inl err, w1)"
    and "delete e self request kw w = (Inl err, w1)"
    and "form self = None \<and> model self = None \<longrightarrow>
         put e self request kw w
           = (Inl (NotImplementedError ''Form or Model class not specified''), w)"
    and "form self \<noteq> None \<or> model self \<noteq> None \<longrightarrow> put e self request kw w = (Inl err, w1)"
proof -
  show "patch e self request kw w = (Inl err, w1)"
    using assms by (simp add: patch_def)
  show "delete e self request kw w = (Inl err, w1)"
    using assms by (simp add: delete_def)
  show "form self = None \<and> model self = None \<longrightarrow>
         put e self request kw w
           = (Inl (NotImplementedError ''Form or Model class not specified''), w)"
    by (simp add: put_def get_form_unset)
  show "form self \<noteq> None \<or> model self \<noteq> None \<longrightarrow> put e self request kw w = (Inl err, w1)"
  proof (cases "get_form e (form self) (model self)")
    case (Inl x)
    with get_form_Inl [OF Inl] show ?thesis by simp
  next
    case (Inr F)
    with assms show ?thesis by (simp add: put_def)
  qed
qed

lemma post_create_calls:
  "calls (snd (post_create e entry self request w))
     \<in> {calls w, calls w @ [FormIsValid], calls w @ [FormIsValid, FormSave]}"
  by (simp add: post_create_def Let_def log_call_def split_beta split: sum.splits option.splits)

text \<open>
  C7, amended. For the operations on an existing resource, \<^verbatim>\<open>put\<close>, \<^verbatim>\<open>patch\<close> and \<^verbatim>\<open>delete\<close>:
  started with an empty trace, each leaves a trace in which every call that validates a
  payload or changes stored state comes after a lookup that found an instance. When the
  lookup returns no instance, \<^verbatim>\<open>patch\<close> and \<^verbatim>\<open>delete\<close> fail with the lookup's error, and so
  does \<^verbatim>\<open>put\<close> unless neither \<^verbatim>\<open>form\<close> nor \<^verbatim>\<open>model\<close> is set, when it has failed with the
  configuration error before the lookup; the database is unchanged and the lookup is the
  only call made. The creation lines of \<^verbatim>\<open>post\<close> make no lookup at all: their calls are
  the form's validation and the form's save.
\<close>

theorem update_and_delete_resolve_first:
  "guarded False (calls (snd (put e dself request kw \<lparr>db = d, calls = []\<rparr>)))
   \<and> guarded False (calls (snd (patch e dself request kw \<lparr>db = d, calls = []\<rparr>)))
   \<and> guarded False (calls (snd (delete e dself request kw \<lparr>db = d, calls = []\<rparr>)))
   \<and> (\<forall>err w1. get_instance dself request kw w = (Inl err, w1) \<longrightarrow>
         patch e dself request kw w = (Inl err, w1)
         \<and> delete e dself request kw w = (Inl err, w1)
         \<and> (form dself = None \<and> model dself = None \<longrightarrow>
              put e dself request kw w
                = (Inl (NotImplementedError ''Form or Model class not specified''), w))
         \<and> (form dself \<noteq> None \<or> model dself \<noteq> None \<longrightarrow>
              put e dself request kw w = (Inl err, w1))
         \<and> db w1 = db w
         \<and> (calls w1 = calls w
            \<or> (\<exists>r. calls w1 = calls w @ [ObjectsGet r] \<and> \<not> resolves (ObjectsGet r))))
   \<and> calls (snd (post_create e entry self request w))
       \<in> {calls w, calls w @ [FormIsValid], calls w @ [FormIsValid, FormSave]}"
proof (intro conjI allI impI)
  show "guarded False (calls (snd (put e dself request kw \<lparr>db = d, calls = []\<rparr>)))"
    by (rule put_guarded)
  show "guarded False (calls (snd (patch e dself request kw \<lparr>db = d, calls = []\<rparr>)))"
    by (rule patch_guarded)
  show "guarded False (calls (snd (delete e dself request kw \<lparr>db = d, calls = []\<rparr>)))"
    by (rule delete_guarded)
  show "calls (snd (post_create e entry self request w))
       \<in> {calls w, calls w @ [FormIsValid], calls w @ [FormIsValid, FormSave]}"
    by (rule post_create_calls)
next
  fix err w1
  assume a: "get_instance dself request kw w = (Inl err, w1)"
  show "patch e dself request kw w = (Inl err, w1)"
    by (rule unresolved_fails(1) [OF a])
  show "delete e dself request kw w = (Inl err, w1)"
    by (rule unresolved_fails(2) [OF a])
  show "db w1 = db w"
    using get_instance_Inl [OF a] by simp
  show "calls w1 = calls w
            \<or> (\<exists>r. calls w1 = calls w @ [ObjectsGet r] \<and> \<not> resolves (ObjectsGet r))"
    using get_instance_Inl [OF a] by simp
  {
    assume "form dself = None \<and> model dself = None"
    then show "put e dself request kw w
                = (Inl (NotImplementedError ''Form or Model class not specified''), w)"
      using unresolved_fails(3) [OF a, of e] by simp
  }
  {
    assume "form dself \<noteq> None \<or> model dself \<noteq> None"
    then show "put e dself request kw w = (Inl err, w1)"
      using unresolved_fails(4) [OF a, of e] by simp
  }
qed

text \<open>
  C7 as stated fails. A \<^verbatim>\<open>delete\<close> whose lookup meets two rows ends with
  \<^verbatim>\<open>MultipleObjectsReturned\<close>: no instance is resolved and the error is not the 404 one. A
  \<^verbatim>\<open>put\<close> on an endpoint without \<^verbatim>\<open>form\<close> and \<^verbatim>\<open>model\<close> ends with \<^verbatim>\<open>NotImplementedError\<close>
  before any lookup. And the creation lines of \<^verbatim>\<open>post\<close>, run with \<^verbatim>\<open>entry\<close> bound to an
  accepted payload, validate and save with no lookup before them.
\<close>

theorem resolve_or_404_counterexample:
  "fst (delete ex_env ex_detail_by_name (ex_request PNone) [(''name'', PStr ''a'')] ex_world2)
     = Inl MultipleObjectsReturned
   \<and> \<not> is_404 (fst (delete ex_env ex_detail_by_name (ex_request PNone)
        [(''name'', PStr ''a'')] ex_world2))
   \<and> put ex_env DetailEndpoint_defaults (ex_request (PDict [(''name'', PStr ''b'')]))
        [(''pk'', PInt 1)] ex_world
     = (Inl (NotImplementedError ''Form or Model class not specified''), ex_world)
   \<and> calls (snd (post_create ex_env (Some (PDict [(''name'', PStr ''b'')])) ex_list
        (ex_request (PDict [(''name'', PStr ''b'')])) ex_world))
     = [FormIsValid, FormSave]
   \<and> \<not> guarded False (calls (snd (post_create ex_env (Some (PDict [(''name'', PStr ''b'')]))
        ex_list (ex_request (PDict [(''name'', PStr ''b'')])) ex_world)))"
proof -
  have a: "delete ex_env ex_detail_by_name (ex_request PNone) [(''name'', PStr ''a'')] ex_world2
     = (Inl MultipleObjectsReturned, ex_world2\<lparr>calls := [ObjectsGet MultipleObjects]\<rparr>)"
    by (simp add: delete_def ex_get_instance_by_name)
  have b: "put ex_env DetailEndpoint_defaults (ex_request (PDict [(''name'', PStr ''b'')]))
        [(''pk'', PInt 1)] ex_world
     = (Inl (NotImplementedError ''Form or Model class not specified''), ex_world)"
    by (simp add: put_def DetailEndpoint_defaults_def get_form_unset)
  have c: "calls (snd (post_create ex_env (Some (PDict [(''name'', PStr ''b'')])) ex_list
        (ex_request (PDict [(''name'', PStr ''b'')])) ex_world))
     = [FormIsValid, FormSave]"
    by (simp add: post_create_def get_form_def ex_list_def ex_form_def py_or_def log_call_def
        Let_def ex_world_def)
  show ?thesis
    by (simp add: a b c)
qed

theorem update_and_delete_resolve_first_witness:
  "get_instance ex_detail (ex_request (PDict [(''name'', PStr ''z'')])) [(''pk'', PInt 2)] ex_world
     = (Inl (HttpError 404 ''Resource Not Found'' None),
        ex_world\<lparr>calls := [ObjectsGet DoesNotExist]\<rparr>)
   \<and> form ex_detail \<noteq> None
   \<and> patch ex_env ex_detail (ex_request (PDict [(''name'', PStr ''z'')])) [(''pk'', PInt 2)] ex_world
     = (Inl (HttpError 404 ''Resource Not Found'' None),
        ex_world\<lparr>calls := [ObjectsGet DoesNotExist]\<rparr>)
   \<and> delete ex_env ex_detail (ex_request (PDict [(''name'', PStr ''z'')])) [(''pk'', PInt 2)] ex_world
     = (Inl (HttpError 404 ''Resource Not Found'' None),
        ex_world\<lparr>calls := [ObjectsGet DoesNotExist]\<rparr>)
   \<and> put ex_env ex_detail (ex_request (PDict [(''name'', PStr ''z'')])) [(''pk'', PInt 2)] ex_world
     = (Inl (HttpError 404 ''Resource Not Found'' None),
        ex_world\<lparr>calls := [ObjectsGet DoesNotExist]\<rparr>)
   \<and> guarded False (calls (snd (put ex_env ex_detail (ex_request (PDict [(''name'', PStr ''z'')]))
         [(''pk'', PInt 1)] \<lparr>db = [ex_row], calls = []\<rparr>)))"
proof -
  let ?req = "ex_request (PDict [(''name'', PStr ''z'')])"
  have g: "get_instance ex_detail ?req [(''pk'', PInt 2)] ex_world
     = (Inl (HttpError 404 ''Resource Not Found'' None),
        ex_world\<lparr>calls := [ObjectsGet DoesNotExist]\<rparr>)"
    by (simp add: get_instance_def ex_detail_def ex_model_def ex_world_def ex_row_def
        kwargs_get_def log_call_def)
  have f: "form ex_detail \<noteq> None"
    by (simp add: ex_detail_def)
  note t = update_and_delete_resolve_first [where e = ex_env and dself = ex_detail
      and request = ?req and d = "[ex_row]"]
  from t [where kw = "[(''pk'', PInt 2)]" and w = ex_world] g f
  have "patch ex_env ex_detail ?req [(''pk'', PInt 2)] ex_world
     = (Inl (HttpError 404 ''Resource Not Found'' None),
        ex_world\<lparr>calls := [ObjectsGet DoesNotExist]\<rparr>)"
    and "delete ex_env ex_detail ?req [(''pk'', PInt 2)] ex_world
     = (Inl (HttpError 404 ''Resource Not Found'' None),
        ex_world\<lparr>calls := [ObjectsGet DoesNotExist]\<rparr>)"
    and "put ex_env ex_detail ?req [(''pk'', PInt 2)] ex_world
     = (Inl (HttpError 404 ''Resource Not Found'' None),
        ex_world\<lparr>calls := [ObjectsGet DoesNotExist]\<rparr>)"
    by blast+
  moreover from t [where kw = "[(''pk'', PInt 1)]"]
  have "guarded False (calls (snd (put ex_env ex_detail ?req
         [(''pk'', PInt 1)] \<lparr>db = [ex_row], calls = []\<rparr>)))"
    by blast
  ultimately show ?thesis
    using g f by simp
qed

end
